theory Spec2Isabelle
  imports Main
begin

section \<open>The stats endpoint of \<^verbatim>\<open>app_stats.py\<close>\<close>

text \<open>
  The module defines one Flask view, \<^verbatim>\<open>get_stats\<close>, that reads a JSON body, forwards
  its \<^verbatim>\<open>query\<close> member to a generative model and relays the model's JSON text.
  The view is embedded as a function that passes an explicit state. What the view gets
  from outside the module is a parameter of the embedding: the outcome of
  \<^verbatim>\<open>request.get_json()\<close>, the call \<^verbatim>\<open>stats_model.generate_content\<close>,
  \<^verbatim>\<open>json.loads\<close>, and \<^verbatim>\<open>repr\<close> (the text of a float, of a container and of
  the key of a \<^verbatim>\<open>KeyError\<close>). Every exception is a value.
\<close>

subsection \<open>Python values decoded from JSON\<close>

text \<open>
  A Python \<^verbatim>\<open>float\<close> is an IEEE 754 binary64 value: a sign, an 11-bit biased exponent
  and a 52-bit fraction. It is zero exactly when exponent and fraction are both zero
  (either sign), which is all that \<^verbatim>\<open>not x\<close> looks at.
\<close>

datatype float64 = Float64 (sign_bit: bool) (biased_exponent: nat) (fraction: nat)

definition float_is_zero :: "float64 \<Rightarrow> bool" where
  "float_is_zero f = (biased_exponent f = 0 \<and> fraction f = 0)"

text \<open>
  The decoder yields \<^verbatim>\<open>None\<close>, \<^verbatim>\<open>bool\<close>, \<^verbatim>\<open>int\<close>, \<^verbatim>\<open>float\<close>,
  \<^verbatim>\<open>str\<close>, \<^verbatim>\<open>list\<close> and \<^verbatim>\<open>dict\<close> (string keys, in insertion order).
\<close>

datatype json =
    JNull
  | JBool bool
  | JInt int
  | JFloat float64
  | JString string
  | JArray "json list"
  | JObject "(string \<times> json) list"

subsection \<open>Exceptions\<close>

text \<open>
  \<^verbatim>\<open>TypeError\<close>, \<^verbatim>\<open>IndexError\<close> and \<^verbatim>\<open>KeyError\<close> are raised by the interpreter
  on the view's own expressions. \<open>Raised b m\<close> is an exception raised inside an
  external call: \<open>m\<close> is its \<^verbatim>\<open>str()\<close>, and \<open>b\<close> says whether its class derives from
  \<^verbatim>\<open>Exception\<close> (\<^verbatim>\<open>KeyboardInterrupt\<close> and \<^verbatim>\<open>SystemExit\<close> do not), which is
  what the clause \<^verbatim>\<open>except Exception as e\<close> tests.
\<close>

datatype exc =
    TypeError string
  | IndexError string
  | KeyError string
  | Raised bool string

definition quoted :: "string \<Rightarrow> string" where
  "quoted s = CHR 0x27 # s @ [CHR 0x27]"

fun is_Exception :: "exc \<Rightarrow> bool" where
  "is_Exception (TypeError m) = True"
| "is_Exception (IndexError m) = True"
| "is_Exception (KeyError k) = True"
| "is_Exception (Raised b m) = b"

text \<open>
  \<^verbatim>\<open>str(e)\<close>, as the f-strings of the \<^verbatim>\<open>except\<close> clause format it. For a
  \<^verbatim>\<open>KeyError\<close> it is \<^verbatim>\<open>repr\<close> of the key; \<open>r\<close> is \<^verbatim>\<open>repr\<close>.
\<close>

fun exc_str :: "(json \<Rightarrow> string) \<Rightarrow> exc \<Rightarrow> string" where
  "exc_str r (TypeError m) = m"
| "exc_str r (IndexError m) = m"
| "exc_str r (KeyError k) = r (JString k)"
| "exc_str r (Raised b m) = m"

subsection \<open>The operators the view applies to the decoded body\<close>

text \<open>\<^verbatim>\<open>bool(x)\<close>: the truth value that \<^verbatim>\<open>not data\<close> negates.\<close>

fun truthy :: "json \<Rightarrow> bool" where
  "truthy JNull = False"
| "truthy (JBool b) = b"
| "truthy (JInt i) = (i \<noteq> 0)"
| "truthy (JFloat f) = (\<not> float_is_zero f)"
| "truthy (JString s) = (s \<noteq> [])"
| "truthy (JArray xs) = (xs \<noteq> [])"
| "truthy (JObject kvs) = (kvs \<noteq> [])"

fun type_name :: "json \<Rightarrow> string" where
  "type_name JNull = ''NoneType''"
| "type_name (JBool b) = ''bool''"
| "type_name (JInt i) = ''int''"
| "type_name (JFloat f) = ''float''"
| "type_name (JString s) = ''str''"
| "type_name (JArray xs) = ''list''"
| "type_name (JObject kvs) = ''dict''"

text \<open>\<^verbatim>\<open>xs in s\<close> on two strings: \<open>xs\<close> occurs in \<open>s\<close> as a contiguous run.\<close>

fun is_substring :: "string \<Rightarrow> string \<Rightarrow> bool" where
  "is_substring xs [] = (xs = [])"
| "is_substring xs (y # ys) = (take (length xs) (y # ys) = xs \<or> is_substring xs ys)"

text \<open>
  \<^verbatim>\<open>k in data\<close> for a string \<open>k\<close>: a key test on a dict, an element test on a list, a
  substring test on a string, and a \<^verbatim>\<open>TypeError\<close> on everything else.
\<close>

fun contains :: "string \<Rightarrow> json \<Rightarrow> exc + bool" where
  "contains k (JObject kvs) = Inr (k \<in> set (map fst kvs))"
| "contains k (JArray xs) = Inr (JString k \<in> set xs)"
| "contains k (JString s) = Inr (is_substring k s)"
| "contains k v = Inl (TypeError (''argument of type '' @ quoted (type_name v) @ '' is not iterable''))"

text \<open>\<^verbatim>\<open>data[k]\<close> for a string \<open>k\<close>: only a dict can be subscripted by a string.\<close>

fun getitem :: "json \<Rightarrow> string \<Rightarrow> exc + json" where
  "getitem (JObject kvs) k = (case map_of kvs k of None \<Rightarrow> Inl (KeyError k) | Some v \<Rightarrow> Inr v)"
| "getitem (JArray xs) k = Inl (TypeError ''list indices must be integers or slices, not str'')"
| "getitem (JString s) k = Inl (TypeError (''string indices must be integers, not '' @ quoted ''str''))"
| "getitem v k = Inl (TypeError (quoted (type_name v) @ '' object is not subscriptable''))"

text \<open>\<^verbatim>\<open>xs[0]\<close> on a list.\<close>

fun index0 :: "'a list \<Rightarrow> exc + 'a" where
  "index0 [] = Inl (IndexError ''list index out of range'')"
| "index0 (x # xs) = Inr x"

text \<open>Decimal digits of a natural number, for \<^verbatim>\<open>str\<close> of an \<^verbatim>\<open>int\<close>.\<close>

fun digits :: "nat \<Rightarrow> string" where
  "digits n =
     (if n < 10 then [''0123456789'' ! n]
      else digits (n div 10) @ [''0123456789'' ! (n mod 10)])"

declare digits.simps [simp del]

text \<open>
  \<^verbatim>\<open>str(x)\<close>, which is what \<^verbatim>\<open>{user_query}\<close> in the f-string inserts. A string is
  inserted as it is. For a float, a list and a dict Python inserts \<^verbatim>\<open>repr(x)\<close>, taken
  here as the parameter \<open>r\<close>.
\<close>

fun py_str :: "(json \<Rightarrow> string) \<Rightarrow> json \<Rightarrow> string" where
  "py_str r (JString s) = s"
| "py_str r JNull = ''None''"
| "py_str r (JBool b) = (if b then ''True'' else ''False'')"
| "py_str r (JInt i) = (if i < 0 then CHR ''-'' # digits (nat (- i)) else digits (nat i))"
| "py_str r v = r v"

subsection \<open>Module-level objects\<close>

text \<open>
  \<^verbatim>\<open>STATS_SCHEMA\<close> is a dict with the keys \<^verbatim>\<open>type\<close>, \<^verbatim>\<open>properties\<close> and
  \<^verbatim>\<open>required\<close>; each property is a dict with a \<^verbatim>\<open>type\<close> and a
  \<^verbatim>\<open>description\<close>.
\<close>

datatype schema_type = OBJECT | STRING | INTEGER

record property =
  property_type :: schema_type
  description :: string

record schema =
  schema_type :: schema_type
  properties :: "(string \<times> property) list"
  required :: "string list"

record generative_model =
  model_name :: string
  system_instruction :: string

record generation_config =
  response_mime_type :: string
  response_schema :: schema

text \<open>The module's global names that the view reads.\<close>

record module_state =
  API_KEY :: "string option"
  STATS_PROMPT :: string
  STATS_SCHEMA :: schema
  stats_model :: generative_model
  stats_generation_config :: generation_config

definition stats_prompt_text :: string where
  \<open>stats_prompt_text = ''
You are a "Chemical Stats" generator for a game. A user will provide a
chemical element symbol (like 'Fe') or a formula (like 'H2O').
Your task is to return a JSON object with "gamified" stats for it.

RULES:
1.  **Query Type**: Determine if the query is a single 'element' or a 'molecule'.
2.  **Stats**: Provide ratings from 0 to 10 for each stat.
    - `stability`: 0 = falls apart, 10 = extremely stable (like N2).
    - `reactivity`: 0 = inert (like He), 10 = extremely reactive (like Fluorine or Sodium).
    - `explosiveness`: 0 = not explosive (like H2O), 10 = highly explosive (like TNT or Nitroglycerin).
3.  **Description**: Write a short, engaging description (1-2 sentences).
4.  **Fun Fact**: Provide a one-sentence fun fact.

Respond *only* with the JSON object.
''\<close>

definition stats_schema_value :: schema where
  "stats_schema_value =
     \<lparr> schema_type = OBJECT,
       properties =
         [ (''name'', \<lparr> property_type = STRING,
              description = ''Common name, e.g., 'Water' or '' @ quoted ''Iron'' \<rparr>),
           (''query_type'', \<lparr> property_type = STRING,
              description = quoted ''element'' @ '' or '' @ quoted ''molecule'' \<rparr>),
           (''description'', \<lparr> property_type = STRING,
              description = ''A 1-2 sentence cool description.'' \<rparr>),
           (''stability'', \<lparr> property_type = INTEGER, description = ''Rating 0-10'' \<rparr>),
           (''reactivity'', \<lparr> property_type = INTEGER, description = ''Rating 0-10'' \<rparr>),
           (''explosiveness'', \<lparr> property_type = INTEGER, description = ''Rating 0-10'' \<rparr>),
           (''fun_fact'', \<lparr> property_type = STRING,
              description = ''A one-sentence fun fact.'' \<rparr>) ],
       required =
         [ ''name'', ''query_type'', ''description'', ''stability'', ''reactivity'',
           ''explosiveness'', ''fun_fact'' ] \<rparr>"

text \<open>
  The module body, run once at import: \<open>getenv\<close> is what
  \<^verbatim>\<open>os.getenv("GEMINI_API_KEY")\<close> returned, \<open>None\<close> when the variable is unset.
\<close>

definition module_init :: "string option \<Rightarrow> module_state" where
  "module_init getenv =
     \<lparr> API_KEY = getenv,
       STATS_PROMPT = stats_prompt_text,
       STATS_SCHEMA = stats_schema_value,
       stats_model =
         \<lparr> model_name = ''gemini-2.5-flash-preview-09-2025'',
           system_instruction = stats_prompt_text \<rparr>,
       stats_generation_config =
         \<lparr> response_mime_type = ''application/json'',
           response_schema = stats_schema_value \<rparr> \<rparr>"

text \<open>\<^verbatim>\<open>not API_KEY\<close> is false for a non-empty string only.\<close>

fun key_set :: "string option \<Rightarrow> bool" where
  "key_set None = False"
| "key_set (Some k) = (k \<noteq> [])"

subsection \<open>The upstream response and the external calls\<close>

text \<open>
  The view reads \<^verbatim>\<open>response.candidates[0].content.parts[0].text\<close>: two sequences
  indexed at 0 and three attributes.
\<close>

record part =
  part_text :: string

record content =
  parts :: "part list"

record candidate =
  candidate_content :: content

record response =
  candidates :: "candidate list"

text \<open>
  The calls that leave the module. \<open>generate_content\<close> gets the model object, the
  prompt and the generation configuration; it answers from a state \<open>'u\<close> of the
  upstream service and may change it, so two calls with one prompt can differ.
  \<open>json_loads\<close> is \<^verbatim>\<open>json.loads\<close> and \<open>repr\<close> is \<^verbatim>\<open>repr\<close>.
\<close>

record 'u externals =
  generate_content ::
    "generative_model \<Rightarrow> string \<Rightarrow> generation_config \<Rightarrow> 'u \<Rightarrow> (exc + response) \<times> 'u"
  json_loads :: "string \<Rightarrow> exc + json"
  repr :: "json \<Rightarrow> string"

text \<open>The request: \<open>get_json\<close> is what \<^verbatim>\<open>request.get_json()\<close> returns or raises.\<close>

record request =
  get_json :: "exc + json"

text \<open>
  The state a request runs in: the module's globals, the upstream service, the prompts
  sent upstream so far (oldest first; one entry per call of \<open>generate_content\<close>) and
  the lines printed.
\<close>

record 'u state =
  globals :: module_state
  upstream :: 'u
  sent :: "string list"
  stdout :: "string list"

record http_response =
  body :: json
  status :: nat

text \<open>
  \<^verbatim>\<open>jsonify(x)\<close> is a response with status 200; \<^verbatim>\<open>return jsonify(x), n\<close> sets the
  status to \<open>n\<close>.
\<close>

definition jsonify :: "json \<Rightarrow> http_response" where
  "jsonify x = \<lparr> body = x, status = 200 \<rparr>"

definition with_status :: "http_response \<Rightarrow> nat \<Rightarrow> http_response" where
  "with_status r n = r \<lparr> status := n \<rparr>"

definition error_body :: "string \<Rightarrow> json" where
  "error_body m = JObject [(''error'', JString m)]"

subsection \<open>The view\<close>

definition first_text :: "response \<Rightarrow> exc + string" where
  "first_text r =
     (case index0 (candidates r) of
        Inl e \<Rightarrow> Inl e
      | Inr c \<Rightarrow>
          (case index0 (parts (candidate_content c)) of
             Inl e \<Rightarrow> Inl e
           | Inr p \<Rightarrow> Inr (part_text p)))"

definition prompt_for :: "'u externals \<Rightarrow> json \<Rightarrow> string" where
  "prompt_for ext user_query = ''Generate stats for: '' @ py_str (repr ext) user_query"

text \<open>The body of the \<^verbatim>\<open>try\<close> block: one upstream call, then the relay of its text.\<close>

definition try_block ::
  "'u externals \<Rightarrow> json \<Rightarrow> 'u state \<Rightarrow> (exc + http_response) \<times> 'u state" where
  "try_block ext user_query s =
     (let g = globals s;
          prompt = prompt_for ext user_query;
          (r, u') = generate_content ext (stats_model g) prompt (stats_generation_config g)
                      (upstream s);
          s' = s \<lparr> upstream := u', sent := sent s @ [prompt] \<rparr>
      in (case r of
            Inl e \<Rightarrow> (Inl e, s')
          | Inr response \<Rightarrow>
              (case first_text response of
                 Inl e \<Rightarrow> (Inl e, s')
               | Inr stats_text \<Rightarrow>
                   (case json_loads ext stats_text of
                      Inl e \<Rightarrow> (Inl e, s')
                    | Inr v \<Rightarrow> (Inr (jsonify v), s')))))"

text \<open>
  The clause \<^verbatim>\<open>except Exception as e\<close>: an instance of \<^verbatim>\<open>Exception\<close> is printed
  and turned into the 500 response; anything else keeps propagating.
\<close>

fun except_Exception ::
  "'u externals \<Rightarrow> (exc + http_response) \<times> 'u state
     \<Rightarrow> (exc + http_response) \<times> 'u state" where
  "except_Exception ext (Inr r, s) = (Inr r, s)"
| "except_Exception ext (Inl e, s) =
     (if is_Exception e then
        (Inr (with_status
           (jsonify (error_body (''AI stats generation failed: '' @ exc_str (repr ext) e))) 500),
         s \<lparr> stdout := stdout s @
               [''An error occurred calling the Gemini API for stats: '' @
                exc_str (repr ext) e] \<rparr>)
      else (Inl e, s))"

text \<open>\<^verbatim>\<open>not data or 'query' not in data\<close>, the right operand evaluated only when needed.\<close>

definition query_missing :: "json \<Rightarrow> exc + bool" where
  "query_missing data =
     (if \<not> truthy data then Inr True
      else (case contains ''query'' data of Inl e \<Rightarrow> Inl e | Inr b \<Rightarrow> Inr (\<not> b)))"

text \<open>
  \<^verbatim>\<open>get_stats\<close>. \<open>Inl e\<close> is an exception that leaves the view; \<open>Inr r\<close> is the
  response the view returns.
\<close>

definition get_stats ::
  "'u externals \<Rightarrow> request \<Rightarrow> 'u state \<Rightarrow> (exc + http_response) \<times> 'u state" where
  "get_stats ext req s =
     (if \<not> key_set (API_KEY (globals s)) then
        (Inr (with_status (jsonify (error_body ''Server is missing GEMINI_API_KEY'')) 500), s)
      else
        (case get_json req of
           Inl e \<Rightarrow> (Inl e, s)
         | Inr data \<Rightarrow>
             (case query_missing data of
                Inl e \<Rightarrow> (Inl e, s)
              | Inr True \<Rightarrow>
                  (Inr (with_status
                     (jsonify (error_body (''Invalid request: '' @ quoted ''query'' @
                        '' missing in JSON body''))) 400), s)
              | Inr False \<Rightarrow>
                  (case getitem data ''query'' of
                     Inl e \<Rightarrow> (Inl e, s)
                   | Inr user_query \<Rightarrow> except_Exception ext (try_block ext user_query s)))))"

subsection \<open>The Stats Record and the error object\<close>

text \<open>
  The Stats Record of the specification, read off \<^verbatim>\<open>STATS_SCHEMA\<close>: an object that
  has every member named in \<open>required\<close>, a string where the schema says
  \<^verbatim>\<open>STRING\<close> and an integer from 0 to 10 (the "Rating 0-10" of the descriptions)
  where it says \<^verbatim>\<open>INTEGER\<close>.
\<close>

fun member_ok :: "schema_type \<Rightarrow> json \<Rightarrow> bool" where
  "member_ok STRING (JString x) = True"
| "member_ok INTEGER (JInt i) = (0 \<le> i \<and> i \<le> 10)"
| "member_ok t v = False"

fun required_ok :: "schema \<Rightarrow> (string \<times> json) list \<Rightarrow> string \<Rightarrow> bool" where
  "required_ok sch kvs k =
     (case map_of (properties sch) k of
        None \<Rightarrow> False
      | Some p \<Rightarrow> (case map_of kvs k of None \<Rightarrow> False | Some v \<Rightarrow> member_ok (property_type p) v))"

fun stats_record :: "schema \<Rightarrow> json \<Rightarrow> bool" where
  "stats_record sch (JObject kvs) = list_all (required_ok sch kvs) (required sch)"
| "stats_record sch v = False"

text \<open>An object whose only member is \<^verbatim>\<open>error\<close>, a string.\<close>

fun error_object :: "json \<Rightarrow> bool" where
  "error_object (JObject [(k, JString m)]) = (k = ''error'')"
| "error_object v = False"

text \<open>
  The responses the specification allows: the Stats Record with status 200, or an error
  object with status 400 or 500.
\<close>

definition specified_response :: "schema \<Rightarrow> http_response \<Rightarrow> bool" where
  "specified_response sch r =
     (if status r = 200 then stats_record sch (body r)
      else error_object (body r) \<and> (status r = 400 \<or> status r = 500))"

subsection \<open>A scripted upstream for concrete runs\<close>

text \<open>
  The upstream service as a script: its state is the list of outcomes it will give, one
  per call, whatever the prompt.
\<close>

definition scripted ::
  "generative_model \<Rightarrow> string \<Rightarrow> generation_config \<Rightarrow> (exc + response) list
     \<Rightarrow> (exc + response) \<times> (exc + response) list" where
  "scripted m p c u =
     (case u of [] \<Rightarrow> (Inl (Raised True ''script exhausted''), []) | x # xs \<Rightarrow> (x, xs))"

definition reply_text :: "string \<Rightarrow> exc + response" where
  "reply_text t = Inr \<lparr> candidates = [\<lparr> candidate_content = \<lparr> parts = [\<lparr> part_text = t \<rparr>] \<rparr> \<rparr>] \<rparr>"

definition iron_text :: string where
  \<open>iron_text = ''{"name": "Iron", "query_type": "element", "description": "A strong grey metal.", "stability": 8, "reactivity": 4, "explosiveness": 0, "fun_fact": "Blood is red because of iron."}''\<close>

definition iron_record :: json where
  "iron_record =
     JObject
       [ (''name'', JString ''Iron''),
         (''query_type'', JString ''element''),
         (''description'', JString ''A strong grey metal.''),
         (''stability'', JInt 8),
         (''reactivity'', JInt 4),
         (''explosiveness'', JInt 0),
         (''fun_fact'', JString ''Blood is red because of iron.'') ]"

text \<open>
  \<^verbatim>\<open>json.loads\<close> on the texts of the concrete runs: three JSON documents; the text
  \<^verbatim>\<open>NaN\<close>, which is not JSON and which \<^verbatim>\<open>json.loads\<close> decodes to the float
  \<^verbatim>\<open>nan\<close> (bits \<^verbatim>\<open>0x7ff8000000000000\<close>); and the error Python reports for a text
  that does not start a value.
\<close>

definition loads_table :: "string \<Rightarrow> exc + json" where
  "loads_table t =
     (if t = iron_text then Inr iron_record
      else if t = ''{}'' then Inr (JObject [])
      else if t = ''[]'' then Inr (JArray [])
      else if t = ''NaN'' then Inr (JFloat (Float64 False 2047 2251799813685248))
      else Inl (Raised True ''Expecting value: line 1 column 1 (char 0)''))"

text \<open>\<^verbatim>\<open>repr\<close> on the one container of the concrete runs, the dict \<^verbatim>\<open>{'a': 1}\<close>.\<close>

definition repr_table :: "json \<Rightarrow> string" where
  "repr_table v = (if v = JObject [(''a'', JInt 1)] then ''{'a': 1}'' else [])"

definition script_externals :: "(exc + response) list externals" where
  "script_externals =
     \<lparr> generate_content = scripted, json_loads = loads_table, repr = repr_table \<rparr>"

text \<open>
  An upstream that writes down what it is asked: its state is the list of prompts it has
  received, oldest first, and it answers every call with the text \<^verbatim>\<open>{}\<close>.
\<close>

definition recording ::
  "generative_model \<Rightarrow> string \<Rightarrow> generation_config \<Rightarrow> string list
     \<Rightarrow> (exc + response) \<times> string list" where
  "recording m p c u = (reply_text ''{}'', u @ [p])"

definition recording_externals :: "string list externals" where
  "recording_externals =
     \<lparr> generate_content = recording, json_loads = loads_table, repr = repr_table \<rparr>"

text \<open>
  A freshly imported module (\<open>getenv\<close> as \<^verbatim>\<open>os.getenv\<close> answered) in front of a
  scripted upstream; nothing sent or printed yet.
\<close>

definition fresh :: "string option \<Rightarrow> (exc + response) list \<Rightarrow> (exc + response) list state" where
  "fresh getenv script =
     \<lparr> globals = module_init getenv, upstream = script, sent = [], stdout = [] \<rparr>"

text \<open>The same module in front of the recording upstream, which has received nothing yet.\<close>

definition fresh_recording :: "string option \<Rightarrow> string list state" where
  "fresh_recording getenv =
     \<lparr> globals = module_init getenv, upstream = [], sent = [], stdout = [] \<rparr>"

definition post :: "json \<Rightarrow> request" where
  "post data = \<lparr> get_json = Inr data \<rparr>"

section \<open>Properties of the view\<close>

subsection \<open>Paths through the view\<close>

text \<open>
  The view has four ways out before the \<^verbatim>\<open>try\<close> block and one way into it. The
  lemmas below settle each path once.
\<close>

lemma get_stats_no_key:
  assumes "\<not> key_set (API_KEY (globals s))"
  shows "get_stats ext req s =
    (Inr \<lparr> body = error_body ''Server is missing GEMINI_API_KEY'', status = 500 \<rparr>, s)"
  using assms by (simp add: get_stats_def jsonify_def with_status_def)

lemma map_of_query_in_keys:
  assumes "map_of kvs k = Some v"
  shows "k \<in> set (map fst kvs)" and "kvs \<noteq> []"
  using assms by (auto dest: map_of_SomeD intro: rev_image_eqI)

lemma in_keys_map_of:
  assumes "k \<in> set (map fst kvs)"
  shows "\<exists>v. map_of kvs k = Some v"
  using assms by (cases "map_of kvs k") (simp_all add: map_of_eq_None_iff)

lemma query_missing_dict:
  "query_missing (JObject kvs) = Inr (''query'' \<notin> set (map fst kvs))"
  by (cases kvs) (simp_all add: query_missing_def)

lemma query_missing_falsy:
  "\<not> truthy data \<Longrightarrow> query_missing data = Inr True"
  by (simp add: query_missing_def)

lemma get_stats_missing:
  assumes "key_set (API_KEY (globals s))" and "get_json req = Inr data"
    and "query_missing data = Inr True"
  shows "get_stats ext req s =
    (Inr \<lparr> body = error_body (''Invalid request: '' @ quoted ''query'' @ '' missing in JSON body''),
           status = 400 \<rparr>, s)"
  using assms by (simp add: get_stats_def jsonify_def with_status_def)

lemma get_stats_forwarded:
  assumes "key_set (API_KEY (globals s))" and "get_json req = Inr (JObject kvs)"
    and "map_of kvs ''query'' = Some v"
  shows "get_stats ext req s = except_Exception ext (try_block ext v s)"
  using assms map_of_query_in_keys [OF assms(3)]
  by (simp add: get_stats_def query_missing_dict)

lemma get_json_raises:
  assumes "key_set (API_KEY (globals s))" and "get_json req = Inl e"
  shows "get_stats ext req s = (Inl e, s)"
  using assms by (simp add: get_stats_def)

lemma try_block_eq:
  assumes "generate_content ext (stats_model (globals s)) (prompt_for ext v)
             (stats_generation_config (globals s)) (upstream s) = (r, u')"
  shows "try_block ext v s =
    ((case r of
        Inl e \<Rightarrow> Inl e
      | Inr response \<Rightarrow>
          (case first_text response of
             Inl e \<Rightarrow> Inl e
           | Inr t \<Rightarrow> (case json_loads ext t of Inl e \<Rightarrow> Inl e | Inr x \<Rightarrow> Inr (jsonify x)))),
     s \<lparr> upstream := u', sent := sent s @ [prompt_for ext v] \<rparr>)"
  using assms by (simp add: try_block_def Let_def split: sum.splits)

lemma try_block_snd:
  "snd (try_block ext v s) =
     s \<lparr> upstream := snd (generate_content ext (stats_model (globals s)) (prompt_for ext v)
                          (stats_generation_config (globals s)) (upstream s)),
         sent := sent s @ [prompt_for ext v] \<rparr>"
  by (simp add: try_block_def Let_def split: prod.splits sum.splits)

lemma try_block_fst_cong:
  assumes "globals s = globals s'" and "upstream s = upstream s'"
  shows "fst (try_block ext v s) = fst (try_block ext v s')"
  using assms by (simp add: try_block_def Let_def split: prod.splits sum.splits)

lemma try_block_Inr:
  assumes "generate_content ext (stats_model (globals s)) (prompt_for ext v)
             (stats_generation_config (globals s)) (upstream s) = (r0, u')"
    and "fst (try_block ext v s) = Inr r"
  shows "\<exists>resp stats_text. r0 = Inr resp \<and> first_text resp = Inr stats_text \<and>
    json_loads ext stats_text = Inr (body r) \<and> status r = 200"
  using assms(2) by (auto simp: try_block_eq [OF assms(1)] jsonify_def split: sum.splits)

lemma except_Exception_frame:
  "globals (snd (except_Exception ext x)) = globals (snd x)"
  "upstream (snd (except_Exception ext x)) = upstream (snd x)"
  "sent (snd (except_Exception ext x)) = sent (snd x)"
  by (cases x; cases "fst x"; simp)+

lemma except_Exception_fst:
  "fst (except_Exception ext x) =
     (case fst x of
        Inr r \<Rightarrow> Inr r
      | Inl e \<Rightarrow>
          if is_Exception e then
            Inr \<lparr> body = error_body (''AI stats generation failed: '' @ exc_str (repr ext) e), status = 500 \<rparr>
          else Inl e)"
  by (cases x; cases "fst x") (simp_all add: jsonify_def with_status_def)

lemma first_text_Cons:
  assumes "candidates resp = c # cs" and "parts (candidate_content c) = p # ps"
  shows "first_text resp = Inr (part_text p)"
  using assms by (simp add: first_text_def)

lemma first_text_no_candidate:
  assumes "candidates resp = []"
  shows "first_text resp = Inl (IndexError ''list index out of range'')"
  using assms by (simp add: first_text_def)

lemma first_text_no_part:
  assumes "candidates resp = c # cs" and "parts (candidate_content c) = []"
  shows "first_text resp = Inl (IndexError ''list index out of range'')"
  using assms by (simp add: first_text_def)

lemma first_text_Inr:
  assumes "first_text resp = Inr t"
  shows "\<exists>c cs p ps. candidates resp = c # cs \<and> parts (candidate_content c) = p # ps \<and>
    t = part_text p"
proof (cases "candidates resp")
  case Nil
  with assms show ?thesis by (simp add: first_text_def)
next
  case (Cons c cs)
  show ?thesis
  proof (cases "parts (candidate_content c)")
    case Nil
    with assms Cons show ?thesis by (simp add: first_text_def)
  next
    case (Cons p ps)
    with assms \<open>candidates resp = c # cs\<close> show ?thesis by (simp add: first_text_def)
  qed
qed

lemma get_stats_relay:
  assumes "key_set (API_KEY (globals s))"
    and "get_json req = Inr (JObject kvs)" and "map_of kvs ''query'' = Some user_query"
    and "generate_content ext (stats_model (globals s))
           (''Generate stats for: '' @ py_str (repr ext) user_query)
           (stats_generation_config (globals s)) (upstream s) = (Inr resp, u')"
    and "candidates resp = c # cs"
    and "parts (candidate_content c) = p # ps"
    and "json_loads ext (part_text p) = Inr v"
  shows "fst (get_stats ext req s) = Inr \<lparr> body = v, status = 200 \<rparr>"
proof -
  have gen: "generate_content ext (stats_model (globals s)) (prompt_for ext user_query)
      (stats_generation_config (globals s)) (upstream s) = (Inr resp, u')"
    using assms(4) by (simp add: prompt_for_def)
  have "fst (try_block ext user_query s) = Inr (jsonify v)"
    using assms(7) by (simp add: try_block_eq [OF gen] first_text_Cons [OF assms(5,6)])
  then show ?thesis
    by (simp add: get_stats_forwarded [OF assms(1-3)] except_Exception_fst jsonify_def)
qed

lemma get_stats_try_raises:
  assumes "key_set (API_KEY (globals s))"
    and "get_json req = Inr (JObject kvs)" and "map_of kvs ''query'' = Some user_query"
    and "generate_content ext (stats_model (globals s))
           (''Generate stats for: '' @ py_str (repr ext) user_query)
           (stats_generation_config (globals s)) (upstream s) = (r, u')"
    and "r = Inl e \<or>
         (\<exists>resp. r = Inr resp \<and>
            (candidates resp = [] \<and> e = IndexError ''list index out of range'' \<or>
             (\<exists>c cs. candidates resp = c # cs \<and> parts (candidate_content c) = [] \<and>
                e = IndexError ''list index out of range'') \<or>
             (\<exists>c cs p ps. candidates resp = c # cs \<and> parts (candidate_content c) = p # ps \<and>
                json_loads ext (part_text p) = Inl e)))"
  shows "fst (get_stats ext req s) =
    (if is_Exception e then
       Inr \<lparr> body = JObject [(''error'',
               JString (''AI stats generation failed: '' @ exc_str (repr ext) e))],
             status = 500 \<rparr>
     else Inl e)"
proof -
  have gen: "generate_content ext (stats_model (globals s)) (prompt_for ext user_query)
      (stats_generation_config (globals s)) (upstream s) = (r, u')"
    using assms(4) by (simp add: prompt_for_def)
  from assms(5) have "fst (try_block ext user_query s) = Inl e"
  proof (elim disjE exE conjE)
    assume "r = Inl e"
    then show ?thesis by (simp add: try_block_eq [OF gen])
  next
    fix resp
    assume "r = Inr resp" "candidates resp = []" "e = IndexError ''list index out of range''"
    then show ?thesis by (simp add: try_block_eq [OF gen] first_text_no_candidate)
  next
    fix resp c cs
    assume "r = Inr resp" "candidates resp = c # cs" "parts (candidate_content c) = []"
      "e = IndexError ''list index out of range''"
    then show ?thesis by (simp add: try_block_eq [OF gen] first_text_no_part)
  next
    fix resp c cs p ps
    assume "r = Inr resp" "candidates resp = c # cs" "parts (candidate_content c) = p # ps"
      "json_loads ext (part_text p) = Inl e"
    then show ?thesis by (simp add: try_block_eq [OF gen] first_text_Cons)
  qed
  then show ?thesis
    by (simp add: get_stats_forwarded [OF assms(1-3)] except_Exception_fst error_body_def)
qed

lemma forwarded_status:
  assumes "fst (except_Exception ext (try_block ext v s)) = Inr r"
  shows "status r = 200 \<or> status r = 500"
proof (cases "fst (try_block ext v s)")
  case (Inl e)
  with assms show ?thesis
    by (cases "is_Exception e") (auto simp: except_Exception_fst)
next
  case (Inr r')
  then have "status r' = 200"
    by (auto simp: try_block_def Let_def jsonify_def split: prod.splits sum.splits)
  with assms Inr show ?thesis by (simp add: except_Exception_fst)
qed

lemma get_stats_cases:
  "(\<exists>x. get_stats ext req s = (x, s)) \<or>
   (\<exists>v. get_stats ext req s = except_Exception ext (try_block ext v s))"
  by (auto simp: get_stats_def split: sum.splits bool.splits)

lemma get_stats_fst_cong:
  assumes "globals s = globals s'" and "upstream s = upstream s'"
  shows "fst (get_stats ext req s) = fst (get_stats ext req s')"
  using assms try_block_fst_cong [OF assms]
  by (simp add: get_stats_def except_Exception_fst split: sum.splits bool.splits)

lemma get_stats_globals: "globals (snd (get_stats ext req s)) = globals s"
  using get_stats_cases [of ext req s]
  by (auto simp: except_Exception_frame try_block_snd)

lemma returnedI:
  assumes "x = Inr r" and "P r"
  shows "(\<exists>r. x = Inr r \<and> P r) \<or> Q"
  using assms by blast

lemma raisedI:
  assumes "x = Inl e" and "\<not> is_Exception e"
  shows "Q \<or> (\<exists>e. x = Inl e \<and> \<not> is_Exception e)"
  using assms by blast

text \<open>
  The definitions unfolded to run the view on a concrete request.
\<close>

lemmas run_defs =
  get_stats_def query_missing_def try_block_def prompt_for_def first_text_def
  script_externals_def scripted_def reply_text_def loads_table_def repr_table_def
  recording_externals_def recording_def
  fresh_def fresh_recording_def module_init_def post_def jsonify_def with_status_def error_body_def Let_def

subsection \<open>Missing credential\<close>

text \<open>
  Claim C3. When the credential is unset (\<^verbatim>\<open>API_KEY\<close> is \<^verbatim>\<open>None\<close>; an empty
  string is treated alike by \<^verbatim>\<open>not API_KEY\<close>), every request is answered with status
  500 and the fixed message "Server is missing GEMINI_API_KEY" in the \<^verbatim>\<open>error\<close>
  member, whatever the request holds; the state is left as it was.
\<close>

theorem missing_credential_is_500:
  assumes "API_KEY (globals s) = None \<or> API_KEY (globals s) = Some []"
  shows "get_stats ext req s =
    (Inr \<lparr> body = JObject [(''error'', JString ''Server is missing GEMINI_API_KEY'')],
           status = 500 \<rparr>, s)"
proof -
  from assms have "\<not> key_set (API_KEY (globals s))" by auto
  then show ?thesis by (simp add: get_stats_no_key error_body_def)
qed

text \<open>
  The hypothesis of C3 at a freshly imported module whose environment has no
  \<^verbatim>\<open>GEMINI_API_KEY\<close>, for the request \<^verbatim>\<open>{"query": "Fe"}\<close>.
\<close>

theorem missing_credential_is_500_witness:
  "API_KEY (globals (fresh None [reply_text iron_text])) = None \<and>
   get_stats script_externals (post (JObject [(''query'', JString ''Fe'')]))
       (fresh None [reply_text iron_text]) =
     (Inr \<lparr> body = JObject [(''error'', JString ''Server is missing GEMINI_API_KEY'')],
            status = 500 \<rparr>, fresh None [reply_text iron_text])"
proof -
  have h: "API_KEY (globals (fresh None [reply_text iron_text])) = None"
    by (simp add: fresh_def module_init_def)
  then have "API_KEY (globals (fresh None [reply_text iron_text])) = None \<or>
      API_KEY (globals (fresh None [reply_text iron_text])) = Some []" by simp
  from missing_credential_is_500 [OF this] h show ?thesis by simp
qed

text \<open>
  Claim C9. With the credential unset, any two requests get the same response, in any two
  states and with any external calls: the check of \<^verbatim>\<open>API_KEY\<close> comes before
  \<^verbatim>\<open>request.get_json()\<close> and before the test for \<^verbatim>\<open>query\<close>, so the status
  is 500 and never 400, and nothing is sent upstream.
\<close>

theorem unset_credential_same_response:
  assumes "API_KEY (globals s1) = None" and "API_KEY (globals s2) = None"
  shows "fst (get_stats ext1 req1 s1) = fst (get_stats ext2 req2 s2) \<and>
    (\<exists>r. fst (get_stats ext1 req1 s1) = Inr r \<and> status r = 500 \<and> status r \<noteq> 400) \<and>
    sent (snd (get_stats ext1 req1 s1)) = sent s1"
  using assms by (simp add: get_stats_no_key)

text \<open>
  C9 at two requests that differ as much as they can: a body \<^verbatim>\<open>{}\<close> without
  \<^verbatim>\<open>query\<close>, and a body that \<^verbatim>\<open>get_json\<close> rejects with an exception.
\<close>

theorem unset_credential_same_response_witness:
  "API_KEY (globals (fresh None [reply_text iron_text])) = None \<and>
   API_KEY (globals (fresh None [])) = None \<and>
   fst (get_stats script_externals (post (JObject [])) (fresh None [reply_text iron_text])) =
     fst (get_stats script_externals \<lparr> get_json = Inl (Raised True ''400 Bad Request'') \<rparr>
            (fresh None [])) \<and>
   fst (get_stats script_externals (post (JObject [])) (fresh None [reply_text iron_text])) =
     Inr \<lparr> body = JObject [(''error'', JString ''Server is missing GEMINI_API_KEY'')],
           status = 500 \<rparr> \<and>
   sent (snd (get_stats script_externals (post (JObject []))
                (fresh None [reply_text iron_text]))) = []"
proof -
  have h1: "API_KEY (globals (fresh None [reply_text iron_text])) = None"
    and h2: "API_KEY (globals (fresh None [])) = None"
    by (simp_all add: fresh_def module_init_def)
  from unset_credential_same_response [OF h1 h2, of script_externals "post (JObject [])"
      script_externals "\<lparr> get_json = Inl (Raised True ''400 Bad Request'') \<rparr>"]
  show ?thesis by (simp add: run_defs)
qed

subsection \<open>Input validation\<close>

text \<open>
  Claim C2, as amended. With the credential present, a request whose decoded body is
  falsy (the empty object \<^verbatim>\<open>{}\<close>, \<^verbatim>\<open>null\<close>, and the other falsy values) or
  is an object without the key \<^verbatim>\<open>query\<close> is answered with status 400 and the
  message "Invalid request: 'query' missing in JSON body"; the state is left as it was.
  An empty query string is not among these requests: the view tests the key only.
\<close>

theorem invalid_body_is_400:
  assumes "key_set (API_KEY (globals s))" and "get_json req = Inr data"
    and "\<not> truthy data \<or> (\<exists>kvs. data = JObject kvs \<and> ''query'' \<notin> set (map fst kvs))"
  shows "get_stats ext req s =
    (Inr \<lparr> body = JObject [(''error'',
               JString (''Invalid request: '' @ quoted ''query'' @ '' missing in JSON body''))],
           status = 400 \<rparr>, s)"
proof -
  from assms(3) have "query_missing data = Inr True"
    by (auto simp: query_missing_falsy query_missing_dict)
  from get_stats_missing [OF assms(1,2) this] show ?thesis
    by (simp add: error_body_def)
qed

text \<open>
  The amended C2 at the bodies \<^verbatim>\<open>{}\<close> and \<^verbatim>\<open>{"q": "Fe"}\<close>.
\<close>

theorem invalid_body_is_400_witness:
  "key_set (API_KEY (globals (fresh (Some ''key'') [reply_text iron_text]))) \<and>
   fst (get_stats script_externals (post (JObject []))
          (fresh (Some ''key'') [reply_text iron_text])) =
     Inr \<lparr> body = JObject [(''error'',
             JString (''Invalid request: '' @ quoted ''query'' @ '' missing in JSON body''))],
           status = 400 \<rparr> \<and>
   fst (get_stats script_externals (post (JObject [(''q'', JString ''Fe'')]))
          (fresh (Some ''key'') [reply_text iron_text])) =
     Inr \<lparr> body = JObject [(''error'',
             JString (''Invalid request: '' @ quoted ''query'' @ '' missing in JSON body''))],
           status = 400 \<rparr>"
proof -
  let ?s = "fresh (Some ''key'') [reply_text iron_text]"
  have k: "key_set (API_KEY (globals ?s))"
    by (simp add: fresh_def module_init_def)
  have g1: "get_json (post (JObject [])) = Inr (JObject [])"
    and g2: "get_json (post (JObject [(''q'', JString ''Fe'')])) =
      Inr (JObject [(''q'', JString ''Fe'')])"
    by (simp_all add: post_def)
  have d1: "\<not> truthy (JObject []) \<or>
      (\<exists>kvs. JObject [] = JObject kvs \<and> ''query'' \<notin> set (map fst kvs))"
    by simp
  have d2: "\<not> truthy (JObject [(''q'', JString ''Fe'')]) \<or>
      (\<exists>kvs. JObject [(''q'', JString ''Fe'')] = JObject kvs \<and> ''query'' \<notin> set (map fst kvs))"
    by simp
  from invalid_body_is_400 [OF k g1 d1, of script_externals]
    invalid_body_is_400 [OF k g2 d2, of script_externals] k
  show ?thesis by simp
qed

text \<open>
  C2 as the specification states it fails for an empty query field: the body
  \<^verbatim>\<open>{"query": ""}\<close> passes the test, the prompt "Generate stats for: " goes
  upstream, and the upstream answer is relayed with status 200.
\<close>

theorem empty_query_is_forwarded:
  "key_set (API_KEY (globals (fresh (Some ''key'') [reply_text iron_text]))) \<and>
   get_stats script_externals (post (JObject [(''query'', JString [])]))
       (fresh (Some ''key'') [reply_text iron_text]) =
     (Inr \<lparr> body = iron_record, status = 200 \<rparr>,
      \<lparr> globals = module_init (Some ''key''), upstream = [],
        sent = [''Generate stats for: ''], stdout = [] \<rparr>)"
  by (simp add: run_defs)

text \<open>
  Claim C10. With the credential present: for a body that is an object holding the key
  \<^verbatim>\<open>query\<close>, whatever the value \<open>v\<close> under it, the view enters the \<^verbatim>\<open>try\<close>
  block with \<open>v\<close> and calls \<^verbatim>\<open>generate_content\<close> on the prompt
  "Generate stats for: " followed by \<^verbatim>\<open>str(v)\<close>: the upstream service is left in the
  state this call leaves it in, what the call returns is what the view relays, and the
  view does not answer 400. A response with status 400 is only given when the body is
  falsy, or is an object without the key, or is not an object; and an object body gets
  the 400 exactly when it lacks the key.
\<close>

theorem query_value_not_validated:
  assumes "key_set (API_KEY (globals s))" and "get_json req = Inr data"
  shows "(\<forall>kvs v. data = JObject kvs \<and> map_of kvs ''query'' = Some v \<longrightarrow>
            get_stats ext req s = except_Exception ext (try_block ext v s) \<and>
            sent (snd (get_stats ext req s)) =
              sent s @ [''Generate stats for: '' @ py_str (repr ext) v] \<and>
            upstream (snd (get_stats ext req s)) =
              snd (generate_content ext (stats_model (globals s))
                     (''Generate stats for: '' @ py_str (repr ext) v)
                     (stats_generation_config (globals s)) (upstream s)) \<and>
            (\<forall>resp u' c cs p ps x.
               generate_content ext (stats_model (globals s))
                 (''Generate stats for: '' @ py_str (repr ext) v)
                 (stats_generation_config (globals s)) (upstream s) = (Inr resp, u') \<and>
               candidates resp = c # cs \<and> parts (candidate_content c) = p # ps \<and>
               json_loads ext (part_text p) = Inr x \<longrightarrow>
               fst (get_stats ext req s) = Inr \<lparr> body = x, status = 200 \<rparr>) \<and>
            (\<forall>r. fst (get_stats ext req s) = Inr r \<longrightarrow> status r \<noteq> 400)) \<and>
         (\<forall>r. fst (get_stats ext req s) = Inr r \<and> status r = 400 \<longrightarrow>
            \<not> truthy data \<or>
            (\<exists>kvs. data = JObject kvs \<and> ''query'' \<notin> set (map fst kvs)) \<or>
            (\<forall>kvs. data \<noteq> JObject kvs)) \<and>
         (\<forall>kvs. data = JObject kvs \<longrightarrow>
            (\<exists>r. fst (get_stats ext req s) = Inr r \<and> status r = 400) =
              (''query'' \<notin> set (map fst kvs)))"
proof (intro conjI allI impI; (elim conjE)?)
  fix kvs v
  assume d: "data = JObject kvs" and v: "map_of kvs ''query'' = Some v"
  from assms(2) d have g: "get_json req = Inr (JObject kvs)" by simp
  show eq: "get_stats ext req s = except_Exception ext (try_block ext v s)"
    by (rule get_stats_forwarded [OF assms(1) g v])
  show "sent (snd (get_stats ext req s)) = sent s @ [''Generate stats for: '' @ py_str (repr ext) v]"
    unfolding eq by (simp only: except_Exception_frame try_block_snd prompt_for_def) simp
  show "upstream (snd (get_stats ext req s)) =
      snd (generate_content ext (stats_model (globals s))
             (''Generate stats for: '' @ py_str (repr ext) v)
             (stats_generation_config (globals s)) (upstream s))"
    unfolding eq by (simp only: except_Exception_frame try_block_snd prompt_for_def) simp
  {
    fix resp u' c cs p ps x
    assume "generate_content ext (stats_model (globals s))
                 (''Generate stats for: '' @ py_str (repr ext) v)
                 (stats_generation_config (globals s)) (upstream s) = (Inr resp, u')"
      and "candidates resp = c # cs" and "parts (candidate_content c) = p # ps"
      and "json_loads ext (part_text p) = Inr x"
    then show "fst (get_stats ext req s) = Inr \<lparr> body = x, status = 200 \<rparr>"
      by (rule get_stats_relay [OF assms(1) g v])
  }
  fix r
  assume "fst (get_stats ext req s) = Inr r"
  then have "status r = 200 \<or> status r = 500"
    unfolding eq by (rule forwarded_status)
  then show "status r \<noteq> 400" by auto
next
  fix r
  assume r: "fst (get_stats ext req s) = Inr r" and st: "status r = 400"
  show "\<not> truthy data \<or> (\<exists>kvs. data = JObject kvs \<and> ''query'' \<notin> set (map fst kvs)) \<or>
      (\<forall>kvs. data \<noteq> JObject kvs)"
  proof (cases data)
    case (JObject kvs)
    have "''query'' \<notin> set (map fst kvs)"
    proof
      assume "''query'' \<in> set (map fst kvs)"
      from in_keys_map_of [OF this] obtain v where v: "map_of kvs ''query'' = Some v" ..
      have "get_stats ext req s = except_Exception ext (try_block ext v s)"
        using assms(2) JObject by (simp add: get_stats_forwarded [OF assms(1) _ v])
      with r have "fst (except_Exception ext (try_block ext v s)) = Inr r" by simp
      then have "status r = 200 \<or> status r = 500" by (rule forwarded_status)
      with st show False by simp
    qed
    with JObject show ?thesis by simp
  qed simp_all
next
  fix kvs
  assume d: "data = JObject kvs"
  show "(\<exists>r. fst (get_stats ext req s) = Inr r \<and> status r = 400) =
      (''query'' \<notin> set (map fst kvs))"
  proof
    assume "\<exists>r. fst (get_stats ext req s) = Inr r \<and> status r = 400"
    then obtain r where r: "fst (get_stats ext req s) = Inr r" and st: "status r = 400"
      by (elim exE conjE)
    show "''query'' \<notin> set (map fst kvs)"
    proof
      assume "''query'' \<in> set (map fst kvs)"
      from in_keys_map_of [OF this] obtain v where v: "map_of kvs ''query'' = Some v" ..
      have "get_stats ext req s = except_Exception ext (try_block ext v s)"
        using assms(2) d by (simp add: get_stats_forwarded [OF assms(1) _ v])
      with r have "fst (except_Exception ext (try_block ext v s)) = Inr r" by simp
      then have "status r = 200 \<or> status r = 500" by (rule forwarded_status)
      with st show False by simp
    qed
  next
    assume "''query'' \<notin> set (map fst kvs)"
    then have qm: "query_missing data = Inr True"
      using d by (simp add: query_missing_dict)
    let ?r = "\<lparr> body = error_body (''Invalid request: '' @ quoted ''query'' @
          '' missing in JSON body''), status = 400 \<rparr>"
    from get_stats_missing [OF assms qm, of ext]
    have "fst (get_stats ext req s) = Inr ?r \<and> status ?r = 400"
      by simp
    then show "\<exists>r. fst (get_stats ext req s) = Inr r \<and> status r = 400"
      by (rule exI)
  qed
qed

text \<open>
  C10 at the four values the claim names (an empty string, \<^verbatim>\<open>null\<close>, a number and a
  nested object), in front of the upstream that writes down its prompts: each value
  reaches the upstream call inside the prompt.
\<close>

theorem query_value_not_validated_witness:
  "key_set (API_KEY (globals (fresh_recording (Some ''key'')))) \<and>
   upstream (snd (get_stats recording_externals (post (JObject [(''query'', JString [])]))
     (fresh_recording (Some ''key'')))) = [''Generate stats for: ''] \<and>
   upstream (snd (get_stats recording_externals (post (JObject [(''query'', JNull)]))
     (fresh_recording (Some ''key'')))) = [''Generate stats for: None''] \<and>
   upstream (snd (get_stats recording_externals (post (JObject [(''query'', JInt 26)]))
     (fresh_recording (Some ''key'')))) = [''Generate stats for: 26''] \<and>
   upstream (snd (get_stats recording_externals
     (post (JObject [(''query'', JObject [(''a'', JInt 1)])]))
     (fresh_recording (Some ''key'')))) = [''Generate stats for: {'a': 1}''] \<and>
   sent (snd (get_stats recording_externals (post (JObject [(''query'', JNull)]))
     (fresh_recording (Some ''key'')))) = [''Generate stats for: None''] \<and>
   fst (get_stats recording_externals (post (JObject [(''query'', JNull)]))
     (fresh_recording (Some ''key''))) = Inr \<lparr> body = JObject [], status = 200 \<rparr>"
proof -
  let ?s = "fresh_recording (Some ''key'')"
  have k: "key_set (API_KEY (globals ?s))"
    by (simp add: fresh_recording_def module_init_def)
  have g: "get_json (post (JObject [(''query'', v)])) = Inr (JObject [(''query'', v)])" for v
    by (simp add: post_def)
  have m: "map_of [(''query'', v)] ''query'' = Some v" for v :: json
    by simp
  note fwd = query_value_not_validated [OF k g, of _ recording_externals, THEN conjunct1,
      rule_format, OF conjI [OF refl m]]
  have snt: "sent (snd (get_stats recording_externals (post (JObject [(''query'', v)])) ?s)) =
      sent ?s @ [''Generate stats for: '' @ py_str (repr recording_externals) v]" for v
    by (rule fwd [THEN conjunct2, THEN conjunct1])
  have ups: "upstream (snd (get_stats recording_externals (post (JObject [(''query'', v)])) ?s)) =
      snd (generate_content recording_externals (stats_model (globals ?s))
             (''Generate stats for: '' @ py_str (repr recording_externals) v)
             (stats_generation_config (globals ?s)) (upstream ?s))" for v
    by (rule fwd [THEN conjunct2, THEN conjunct2, THEN conjunct1])
  have rel: "fst (get_stats recording_externals (post (JObject [(''query'', v)])) ?s) =
      Inr \<lparr> body = JObject [], status = 200 \<rparr>" for v
    by (rule fwd [THEN conjunct2, THEN conjunct2, THEN conjunct2, THEN conjunct1, rule_format,
          of _ "\<lparr> candidates = [\<lparr> candidate_content = \<lparr> parts = [\<lparr> part_text = ''{}'' \<rparr>] \<rparr> \<rparr>] \<rparr>"
             "[''Generate stats for: '' @ py_str (repr recording_externals) v]"
             "\<lparr> candidate_content = \<lparr> parts = [\<lparr> part_text = ''{}'' \<rparr>] \<rparr> \<rparr>" "[]"
             "\<lparr> part_text = ''{}'' \<rparr>" "[]"])
      (simp add: recording_externals_def recording_def reply_text_def fresh_recording_def
        loads_table_def iron_text_def)
  have d: "digits 26 = ''26''" by (simp add: digits.simps)
  show ?thesis
    using k ups [of "JString []"] ups [of JNull] ups [of "JInt 26"]
      ups [of "JObject [(''a'', JInt 1)]"] snt [of JNull] rel [of JNull]
    by (simp add: d recording_externals_def recording_def repr_table_def fresh_recording_def)
qed

subsection \<open>The relay of the upstream answer\<close>

text \<open>
  Claim C5. With the credential present and \<^verbatim>\<open>query\<close> in the body, if the upstream
  call (on the prompt built from the query) returns a response whose first candidate's
  first part holds a text that \<^verbatim>\<open>json.loads\<close> decodes to \<open>v\<close>, the response of the
  view is \<open>v\<close> itself with status 200. The statement holds for every \<open>v\<close>: the view
  checks neither members, nor types, nor ranges.
\<close>

theorem relay_unmodified:
  assumes "key_set (API_KEY (globals s))"
    and "get_json req = Inr (JObject kvs)" and "map_of kvs ''query'' = Some user_query"
    and "generate_content ext (stats_model (globals s))
           (''Generate stats for: '' @ py_str (repr ext) user_query)
           (stats_generation_config (globals s)) (upstream s) = (Inr resp, u')"
    and "candidates resp = c # cs"
    and "parts (candidate_content c) = p # ps"
    and "json_loads ext (part_text p) = Inr v"
  shows "fst (get_stats ext req s) = Inr \<lparr> body = v, status = 200 \<rparr>"
  using assms by (rule get_stats_relay)

text \<open>
  C5 at a response with two candidates, the first with two parts: the text of the first
  part of the first candidate is the one decoded and relayed.
\<close>

theorem relay_unmodified_witness:
  "key_set (API_KEY (globals (fresh (Some ''key'')
     [Inr \<lparr> candidates =
        [\<lparr> candidate_content = \<lparr> parts = [\<lparr> part_text = iron_text \<rparr>, \<lparr> part_text = ''{}'' \<rparr>] \<rparr> \<rparr>,
         \<lparr> candidate_content = \<lparr> parts = [\<lparr> part_text = ''[]'' \<rparr>] \<rparr> \<rparr>] \<rparr> :: exc + response]))) \<and>
   json_loads script_externals iron_text = Inr iron_record \<and>
   fst (get_stats script_externals (post (JObject [(''query'', JString ''Fe'')]))
          (fresh (Some ''key'')
     [Inr \<lparr> candidates =
        [\<lparr> candidate_content = \<lparr> parts = [\<lparr> part_text = iron_text \<rparr>, \<lparr> part_text = ''{}'' \<rparr>] \<rparr> \<rparr>,
         \<lparr> candidate_content = \<lparr> parts = [\<lparr> part_text = ''[]'' \<rparr>] \<rparr> \<rparr>] \<rparr>])) =
     Inr \<lparr> body = iron_record, status = 200 \<rparr>"
proof -
  let ?p = "\<lparr> part_text = iron_text \<rparr>"
  let ?c = "\<lparr> candidate_content = \<lparr> parts = [?p, \<lparr> part_text = ''{}'' \<rparr>] \<rparr> \<rparr>"
  let ?c' = "\<lparr> candidate_content = \<lparr> parts = [\<lparr> part_text = ''[]'' \<rparr>] \<rparr> \<rparr>"
  let ?resp = "\<lparr> candidates = [?c, ?c'] \<rparr>"
  let ?s = "fresh (Some ''key'') [Inr ?resp :: exc + response]"
  let ?req = "post (JObject [(''query'', JString ''Fe'')])"
  have k: "key_set (API_KEY (globals ?s))"
    by (simp add: fresh_def module_init_def)
  have g: "get_json ?req = Inr (JObject [(''query'', JString ''Fe'')])"
    by (simp add: post_def)
  have m: "map_of [(''query'', JString ''Fe'')] ''query'' = Some (JString ''Fe'')"
    by simp
  have gen: "generate_content script_externals (stats_model (globals ?s))
       (''Generate stats for: '' @ py_str (repr script_externals) (JString ''Fe''))
       (stats_generation_config (globals ?s)) (upstream ?s) = (Inr ?resp, [])"
    by (simp add: script_externals_def scripted_def fresh_def)
  have c: "candidates ?resp = ?c # [?c']" by simp
  have p: "parts (candidate_content ?c) = ?p # [\<lparr> part_text = ''{}'' \<rparr>]" by simp
  have l: "json_loads script_externals (part_text ?p) = Inr iron_record"
    by (simp add: script_externals_def loads_table_def)
  from l have l': "json_loads script_externals iron_text = Inr iron_record" by simp
  from relay_unmodified [OF k g m gen c p l] k l' show ?thesis by (intro conjI)
qed

text \<open>
  Claim C1, as amended. With the credential present and \<^verbatim>\<open>query\<close> in the body, a
  response with status 200 has as its body exactly the value that \<^verbatim>\<open>json.loads\<close>
  gives for the text of the upstream response. So the body is a Stats Record (all seven
  required members, the three ratings in 0..10) exactly when the upstream payload is one;
  the view itself does not make it so.
\<close>

theorem success_relays_upstream_payload:
  assumes "key_set (API_KEY (globals s))"
    and "get_json req = Inr (JObject kvs)" and "map_of kvs ''query'' = Some user_query"
    and "fst (get_stats ext req s) = Inr r" and "status r = 200"
  shows "\<exists>resp u' stats_text.
    generate_content ext (stats_model (globals s)) (prompt_for ext user_query)
      (stats_generation_config (globals s)) (upstream s) = (Inr resp, u') \<and>
    first_text resp = Inr stats_text \<and>
    json_loads ext stats_text = Inr (body r) \<and>
    stats_record (STATS_SCHEMA (globals s)) (body r) =
      (\<exists>v. json_loads ext stats_text = Inr v \<and> stats_record (STATS_SCHEMA (globals s)) v)"
proof -
  obtain r0 u' where gen:
    "generate_content ext (stats_model (globals s)) (prompt_for ext user_query)
       (stats_generation_config (globals s)) (upstream s) = (r0, u')"
    by (cases "generate_content ext (stats_model (globals s)) (prompt_for ext user_query)
       (stats_generation_config (globals s)) (upstream s)")
  have run: "fst (except_Exception ext (try_block ext user_query s)) = Inr r"
    using assms(4) by (simp add: get_stats_forwarded [OF assms(1-3)])
  from run assms(5) obtain resp where r0: "r0 = Inr resp"
    by (cases r0)
      (auto simp: except_Exception_fst try_block_eq [OF gen] jsonify_def with_status_def
        split: if_splits)
  from run assms(5) r0 obtain stats_text where t: "first_text resp = Inr stats_text"
    by (cases "first_text resp")
      (auto simp: except_Exception_fst try_block_eq [OF gen] jsonify_def with_status_def
        split: if_splits)
  from run assms(5) r0 t have "json_loads ext stats_text = Inr (body r)"
    by (cases "json_loads ext stats_text")
      (auto simp: except_Exception_fst try_block_eq [OF gen] jsonify_def with_status_def
        split: if_splits)
  with gen r0 t show ?thesis by auto
qed

text \<open>
  The amended C1 at the request \<^verbatim>\<open>{"query": "Fe"}\<close> and an upstream payload that is
  a Stats Record.
\<close>

theorem success_relays_upstream_payload_witness:
  "key_set (API_KEY (globals (fresh (Some ''key'') [reply_text iron_text]))) \<and>
   fst (get_stats script_externals (post (JObject [(''query'', JString ''Fe'')]))
          (fresh (Some ''key'') [reply_text iron_text])) =
     Inr \<lparr> body = iron_record, status = 200 \<rparr> \<and>
   json_loads script_externals iron_text = Inr iron_record \<and>
   stats_record (STATS_SCHEMA (globals (fresh (Some ''key'') [reply_text iron_text])))
     iron_record"
proof -
  let ?s = "fresh (Some ''key'') [reply_text iron_text]"
  let ?req = "post (JObject [(''query'', JString ''Fe'')])"
  let ?r = "\<lparr> body = iron_record, status = 200 \<rparr>"
  have k: "key_set (API_KEY (globals ?s))"
    by (simp add: fresh_def module_init_def)
  have g: "get_json ?req = Inr (JObject [(''query'', JString ''Fe'')])"
    by (simp add: post_def)
  have m: "map_of [(''query'', JString ''Fe'')] ''query'' = Some (JString ''Fe'')"
    by simp
  have run: "fst (get_stats script_externals ?req ?s) = Inr ?r"
    by (simp add: run_defs)
  have st: "status ?r = 200" by simp
  have rec: "stats_record (STATS_SCHEMA (globals ?s)) iron_record"
    by (simp add: fresh_def module_init_def stats_schema_value_def iron_record_def)
  from success_relays_upstream_payload [OF k g m run st]
  obtain resp u' stats_text where
    "generate_content script_externals (stats_model (globals ?s))
       (prompt_for script_externals (JString ''Fe'')) (stats_generation_config (globals ?s))
       (upstream ?s) = (Inr resp, u')"
    and "first_text resp = Inr stats_text"
    and "json_loads script_externals stats_text = Inr (body ?r)"
    by (elim exE conjE)
  then have "json_loads script_externals iron_text = Inr iron_record"
    by (auto simp: script_externals_def scripted_def fresh_def reply_text_def first_text_def)
  with k run rec show ?thesis by (intro conjI)
qed

text \<open>
  C1 as the specification states it fails: for the valid query \<^verbatim>\<open>Fe\<close> and the
  upstream text \<^verbatim>\<open>{}\<close> the call succeeds with status 200 and a body that has none of
  the seven members.
\<close>

theorem empty_object_is_relayed:
  "fst (get_stats script_externals (post (JObject [(''query'', JString ''Fe'')]))
          (fresh (Some ''key'') [reply_text ''{}''])) =
     Inr \<lparr> body = JObject [], status = 200 \<rparr> \<and>
   \<not> stats_record (STATS_SCHEMA (globals (fresh (Some ''key'') [reply_text ''{}''])))
       (JObject [])"
  by (simp add: run_defs iron_text_def stats_schema_value_def)

text \<open>
  Claim C4, as amended. With the credential present and \<^verbatim>\<open>query\<close> in the body: when
  the upstream call raises \<open>e\<close>, or \<^verbatim>\<open>candidates[0]\<close> or \<^verbatim>\<open>parts[0]\<close> raises
  the \<^verbatim>\<open>IndexError\<close> \<open>e\<close>, or \<^verbatim>\<open>json.loads\<close> raises \<open>e\<close> on the text of the
  first part, the view answers with status 500 and the message
  "AI stats generation failed: " followed by \<^verbatim>\<open>str(e)\<close> if \<open>e\<close> is an instance of
  \<^verbatim>\<open>Exception\<close>, and \<open>e\<close> leaves the view if it is not. A returned text counts as
  invalid only where \<^verbatim>\<open>json.loads\<close> raises on it.
\<close>

theorem upstream_failure_outcome:
  assumes "key_set (API_KEY (globals s))"
    and "get_json req = Inr (JObject kvs)" and "map_of kvs ''query'' = Some user_query"
    and "generate_content ext (stats_model (globals s))
           (''Generate stats for: '' @ py_str (repr ext) user_query)
           (stats_generation_config (globals s)) (upstream s) = (r, u')"
    and "r = Inl e \<or>
         (\<exists>resp. r = Inr resp \<and>
            (candidates resp = [] \<and> e = IndexError ''list index out of range'' \<or>
             (\<exists>c cs. candidates resp = c # cs \<and> parts (candidate_content c) = [] \<and>
                e = IndexError ''list index out of range'') \<or>
             (\<exists>c cs p ps. candidates resp = c # cs \<and> parts (candidate_content c) = p # ps \<and>
                json_loads ext (part_text p) = Inl e)))"
  shows "fst (get_stats ext req s) =
    (if is_Exception e then
       Inr \<lparr> body = JObject [(''error'',
               JString (''AI stats generation failed: '' @ exc_str (repr ext) e))],
             status = 500 \<rparr>
     else Inl e)"
  using assms by (rule get_stats_try_raises)

text \<open>
  The amended C4 at an upstream call that raises an \<^verbatim>\<open>Exception\<close>, at an upstream
  text that \<^verbatim>\<open>json.loads\<close> rejects, at a response without candidates, and at an
  upstream call that raises outside \<^verbatim>\<open>Exception\<close>.
\<close>

theorem upstream_failure_outcome_witness:
  "key_set (API_KEY (globals (fresh (Some ''key'') [Inl (Raised True ''503 Service Unavailable'')]))) \<and>
   fst (get_stats script_externals (post (JObject [(''query'', JString ''Fe'')]))
          (fresh (Some ''key'') [Inl (Raised True ''503 Service Unavailable'')])) =
     Inr \<lparr> body = JObject [(''error'',
             JString ''AI stats generation failed: 503 Service Unavailable'')],
           status = 500 \<rparr> \<and>
   fst (get_stats script_externals (post (JObject [(''query'', JString ''Fe'')]))
          (fresh (Some ''key'') [reply_text ''Iron is a metal''])) =
     Inr \<lparr> body = JObject [(''error'',
             JString ''AI stats generation failed: Expecting value: line 1 column 1 (char 0)'')],
           status = 500 \<rparr> \<and>
   fst (get_stats script_externals (post (JObject [(''query'', JString ''Fe'')]))
          (fresh (Some ''key'') [Inr \<lparr> candidates = [] \<rparr>])) =
     Inr \<lparr> body = JObject [(''error'',
             JString ''AI stats generation failed: list index out of range'')],
           status = 500 \<rparr> \<and>
   fst (get_stats script_externals (post (JObject [(''query'', JString ''Fe'')]))
          (fresh (Some ''key'') [Inl (Raised False ''exit'')])) =
     Inl (Raised False ''exit'')"
proof -
  let ?e1 = "Raised True ''503 Service Unavailable''"
  let ?e2 = "Raised True ''Expecting value: line 1 column 1 (char 0)''"
  let ?e3 = "IndexError ''list index out of range''"
  let ?e4 = "Raised False ''exit''"
  let ?p = "\<lparr> part_text = ''Iron is a metal'' \<rparr>"
  let ?c = "\<lparr> candidate_content = \<lparr> parts = [?p] \<rparr> \<rparr>"
  let ?resp2 = "\<lparr> candidates = [?c] \<rparr>"
  let ?resp3 = "\<lparr> candidates = [] \<rparr>"
  let ?s1 = "fresh (Some ''key'') [Inl ?e1 :: exc + response]"
  let ?s2 = "fresh (Some ''key'') [reply_text ''Iron is a metal'']"
  let ?s3 = "fresh (Some ''key'') [Inr ?resp3 :: exc + response]"
  let ?s4 = "fresh (Some ''key'') [Inl ?e4 :: exc + response]"
  let ?req = "post (JObject [(''query'', JString ''Fe'')])"
  let ?prompt = "''Generate stats for: '' @ py_str (repr script_externals) (JString ''Fe'')"
  have k: "key_set (API_KEY (globals ?s1))" "key_set (API_KEY (globals ?s2))"
    "key_set (API_KEY (globals ?s3))" "key_set (API_KEY (globals ?s4))"
    by (simp_all add: fresh_def module_init_def)
  have g: "get_json ?req = Inr (JObject [(''query'', JString ''Fe'')])"
    by (simp add: post_def)
  have m: "map_of [(''query'', JString ''Fe'')] ''query'' = Some (JString ''Fe'')"
    by simp
  have gen1: "generate_content script_externals (stats_model (globals ?s1)) ?prompt
       (stats_generation_config (globals ?s1)) (upstream ?s1) = (Inl ?e1, [])"
    and gen2: "generate_content script_externals (stats_model (globals ?s2)) ?prompt
       (stats_generation_config (globals ?s2)) (upstream ?s2) = (Inr ?resp2, [])"
    and gen3: "generate_content script_externals (stats_model (globals ?s3)) ?prompt
       (stats_generation_config (globals ?s3)) (upstream ?s3) = (Inr ?resp3, [])"
    and gen4: "generate_content script_externals (stats_model (globals ?s4)) ?prompt
       (stats_generation_config (globals ?s4)) (upstream ?s4) = (Inl ?e4, [])"
    by (simp_all add: script_externals_def scripted_def fresh_def reply_text_def)
  have l2: "json_loads script_externals ''Iron is a metal'' = Inl ?e2"
    by (simp add: script_externals_def loads_table_def iron_text_def)
  have f1: "(Inl ?e1 :: exc + response) = Inl ?e1 \<or>
         (\<exists>resp. Inl ?e1 = Inr resp \<and>
            (candidates resp = [] \<and> ?e1 = IndexError ''list index out of range'' \<or>
             (\<exists>c cs. candidates resp = c # cs \<and> parts (candidate_content c) = [] \<and>
                ?e1 = IndexError ''list index out of range'') \<or>
             (\<exists>c cs p ps. candidates resp = c # cs \<and> parts (candidate_content c) = p # ps \<and>
                json_loads script_externals (part_text p) = Inl ?e1)))"
    by (rule disjI1) (rule refl)
  have f4: "(Inl ?e4 :: exc + response) = Inl ?e4 \<or>
         (\<exists>resp. Inl ?e4 = Inr resp \<and>
            (candidates resp = [] \<and> ?e4 = IndexError ''list index out of range'' \<or>
             (\<exists>c cs. candidates resp = c # cs \<and> parts (candidate_content c) = [] \<and>
                ?e4 = IndexError ''list index out of range'') \<or>
             (\<exists>c cs p ps. candidates resp = c # cs \<and> parts (candidate_content c) = p # ps \<and>
                json_loads script_externals (part_text p) = Inl ?e4)))"
    by (rule disjI1) (rule refl)
  have "\<exists>c cs p ps. candidates ?resp2 = c # cs \<and> parts (candidate_content c) = p # ps \<and>
      json_loads script_externals (part_text p) = Inl ?e2"
    by (rule exI [of _ ?c], rule exI [of _ "[]"], rule exI [of _ ?p], rule exI [of _ "[]"])
      (simp add: l2)
  then have f2: "Inr ?resp2 = Inl ?e2 \<or>
         (\<exists>resp. Inr ?resp2 = Inr resp \<and>
            (candidates resp = [] \<and> ?e2 = IndexError ''list index out of range'' \<or>
             (\<exists>c cs. candidates resp = c # cs \<and> parts (candidate_content c) = [] \<and>
                ?e2 = IndexError ''list index out of range'') \<or>
             (\<exists>c cs p ps. candidates resp = c # cs \<and> parts (candidate_content c) = p # ps \<and>
                json_loads script_externals (part_text p) = Inl ?e2)))"
    by (intro disjI2 exI [of _ ?resp2] conjI refl)
  have f3: "Inr ?resp3 = Inl ?e3 \<or>
         (\<exists>resp. Inr ?resp3 = Inr resp \<and>
            (candidates resp = [] \<and> ?e3 = IndexError ''list index out of range'' \<or>
             (\<exists>c cs. candidates resp = c # cs \<and> parts (candidate_content c) = [] \<and>
                ?e3 = IndexError ''list index out of range'') \<or>
             (\<exists>c cs p ps. candidates resp = c # cs \<and> parts (candidate_content c) = p # ps \<and>
                json_loads script_externals (part_text p) = Inl ?e3)))"
    by (rule disjI2, rule exI [of _ ?resp3], rule conjI, rule refl, rule disjI1) simp
  from upstream_failure_outcome [OF k(1) g m gen1 f1]
    upstream_failure_outcome [OF k(2) g m gen2 f2]
    upstream_failure_outcome [OF k(3) g m gen3 f3]
    upstream_failure_outcome [OF k(4) g m gen4 f4] k(1)
  show ?thesis by simp
qed

text \<open>
  C4 as the specification states it fails twice. A \<^verbatim>\<open>KeyboardInterrupt\<close> raised during
  the upstream call (its \<^verbatim>\<open>str\<close> is empty) is not caught by \<^verbatim>\<open>except Exception\<close>:
  the view gives no response at all. And the upstream text \<^verbatim>\<open>NaN\<close>, which is not
  valid JSON, is decoded by \<^verbatim>\<open>json.loads\<close> and relayed with status 200.
\<close>

theorem interrupt_and_nan_are_not_500:
  "fst (get_stats script_externals (post (JObject [(''query'', JString ''Fe'')]))
          (fresh (Some ''key'') [Inl (Raised False [])])) = Inl (Raised False []) \<and>
   fst (get_stats script_externals (post (JObject [(''query'', JString ''Fe'')]))
          (fresh (Some ''key'') [reply_text ''NaN''])) =
     Inr \<lparr> body = JFloat (Float64 False 2047 2251799813685248), status = 200 \<rparr>"
  by (simp add: run_defs iron_text_def)

subsection \<open>The responses of the view\<close>

text \<open>
  Claim C6, as amended. For a request whose body decodes to a falsy value or to an
  object, what the view returns is one of: the error object for the missing credential
  with status 500; the error object for the missing \<^verbatim>\<open>query\<close> with status 400; the
  error object "AI stats generation failed: ..." with status 500; or, with status 200,
  the value decoded from the text of the first part of the upstream response to the
  prompt built from the query, whatever its shape. No other status and no other body is
  returned. The only other outcome is an exception that is not an instance of
  \<^verbatim>\<open>Exception\<close>; and such an exception, raised by the upstream call or by
  \<^verbatim>\<open>json.loads\<close>, does leave the view.
\<close>

theorem returned_responses:
  assumes "get_json req = Inr data" and "\<not> truthy data \<or> (\<exists>kvs. data = JObject kvs)"
  shows "((\<exists>r. fst (get_stats ext req s) = Inr r \<and>
            (r = \<lparr> body = JObject [(''error'', JString ''Server is missing GEMINI_API_KEY'')],
                   status = 500 \<rparr> \<or>
             r = \<lparr> body = JObject [(''error'',
                     JString (''Invalid request: '' @ quoted ''query'' @ '' missing in JSON body''))],
                   status = 400 \<rparr> \<or>
             (\<exists>e. is_Exception e \<and>
                r = \<lparr> body = JObject [(''error'',
                        JString (''AI stats generation failed: '' @ exc_str (repr ext) e))],
                      status = 500 \<rparr>) \<or>
             (\<exists>kvs v resp u' c cs p ps. status r = 200 \<and>
                data = JObject kvs \<and> map_of kvs ''query'' = Some v \<and>
                generate_content ext (stats_model (globals s))
                  (''Generate stats for: '' @ py_str (repr ext) v)
                  (stats_generation_config (globals s)) (upstream s) = (Inr resp, u') \<and>
                candidates resp = c # cs \<and> parts (candidate_content c) = p # ps \<and>
                json_loads ext (part_text p) = Inr (body r)))) \<or>
          (\<exists>e. fst (get_stats ext req s) = Inl e \<and> \<not> is_Exception e)) \<and>
         (\<forall>kvs v r0 u' e.
            key_set (API_KEY (globals s)) \<and> data = JObject kvs \<and>
            map_of kvs ''query'' = Some v \<and>
            generate_content ext (stats_model (globals s))
              (''Generate stats for: '' @ py_str (repr ext) v)
              (stats_generation_config (globals s)) (upstream s) = (r0, u') \<and>
            (r0 = Inl e \<or>
             (\<exists>resp c cs p ps. r0 = Inr resp \<and> candidates resp = c # cs \<and>
                parts (candidate_content c) = p # ps \<and>
                json_loads ext (part_text p) = Inl e)) \<and>
            \<not> is_Exception e \<longrightarrow>
            fst (get_stats ext req s) = Inl e)"
  (is "?returned \<and> ?propagates")
proof (rule conjI)
  show ?propagates
  proof (intro allI impI, elim conjE)
    fix kvs v r0 u' e
    assume key: "key_set (API_KEY (globals s))" and d: "data = JObject kvs"
      and v: "map_of kvs ''query'' = Some v"
      and gen: "generate_content ext (stats_model (globals s))
              (''Generate stats for: '' @ py_str (repr ext) v)
              (stats_generation_config (globals s)) (upstream s) = (r0, u')"
      and fails: "r0 = Inl e \<or>
             (\<exists>resp c cs p ps. r0 = Inr resp \<and> candidates resp = c # cs \<and>
                parts (candidate_content c) = p # ps \<and>
                json_loads ext (part_text p) = Inl e)"
      and ne: "\<not> is_Exception e"
    from assms(1) d have g: "get_json req = Inr (JObject kvs)" by simp
    from fails have "r0 = Inl e \<or>
         (\<exists>resp. r0 = Inr resp \<and>
            (candidates resp = [] \<and> e = IndexError ''list index out of range'' \<or>
             (\<exists>c cs. candidates resp = c # cs \<and> parts (candidate_content c) = [] \<and>
                e = IndexError ''list index out of range'') \<or>
             (\<exists>c cs p ps. candidates resp = c # cs \<and> parts (candidate_content c) = p # ps \<and>
                json_loads ext (part_text p) = Inl e)))"
    proof (elim disjE exE conjE)
      assume "r0 = Inl e"
      then show ?thesis by (rule disjI1)
    next
      fix resp c cs p ps
      assume r0: "r0 = Inr resp" and c: "candidates resp = c # cs"
        and p: "parts (candidate_content c) = p # ps"
        and l: "json_loads ext (part_text p) = Inl e"
      have "\<exists>c cs p ps. candidates resp = c # cs \<and> parts (candidate_content c) = p # ps \<and>
          json_loads ext (part_text p) = Inl e"
        by (rule exI [of _ c], rule exI [of _ cs], rule exI [of _ p], rule exI [of _ ps])
          (intro conjI c p l)
      then show ?thesis
        by (intro disjI2 exI [of _ resp] conjI r0)
    qed
    from get_stats_try_raises [OF key g v gen this] ne
    show "fst (get_stats ext req s) = Inl e" by simp
  qed
next
  show ?returned
  proof (cases "key_set (API_KEY (globals s))")
    case False
    from get_stats_no_key [OF this, of ext req]
    have "fst (get_stats ext req s) =
        Inr \<lparr> body = JObject [(''error'', JString ''Server is missing GEMINI_API_KEY'')],
              status = 500 \<rparr>"
      by (simp add: error_body_def)
    then show ?thesis
      by (rule returnedI) (rule disjI1, rule refl)
  next
    case key: True
    show ?thesis
    proof (cases "query_missing data = Inr True")
      case True
      from get_stats_missing [OF key assms(1) this, of ext]
      have "fst (get_stats ext req s) =
          Inr \<lparr> body = JObject [(''error'',
                  JString (''Invalid request: '' @ quoted ''query'' @ '' missing in JSON body''))],
                status = 400 \<rparr>"
        by (simp add: error_body_def)
      then show ?thesis
        by (rule returnedI) (rule disjI2, rule disjI1, rule refl)
    next
      case False
      with assms(2) obtain kvs where d: "data = JObject kvs"
        by (auto simp: query_missing_falsy)
      with False have "''query'' \<in> set (map fst kvs)"
        by (simp add: query_missing_dict)
      from in_keys_map_of [OF this] obtain v where v: "map_of kvs ''query'' = Some v" ..
      obtain r0 u' where gen:
        "generate_content ext (stats_model (globals s)) (prompt_for ext v)
           (stats_generation_config (globals s)) (upstream s) = (r0, u')"
        by (cases "generate_content ext (stats_model (globals s)) (prompt_for ext v)
           (stats_generation_config (globals s)) (upstream s)")
      have run: "fst (get_stats ext req s) = fst (except_Exception ext (try_block ext v s))"
        using assms(1) d by (simp add: get_stats_forwarded [OF key _ v])
      show ?thesis
      proof (cases "fst (try_block ext v s)")
        case (Inl e)
        show ?thesis
        proof (cases "is_Exception e")
          case True
          with run Inl have "fst (get_stats ext req s) =
              Inr \<lparr> body = JObject [(''error'',
                      JString (''AI stats generation failed: '' @ exc_str (repr ext) e))],
                    status = 500 \<rparr>"
            by (simp add: except_Exception_fst error_body_def)
          then show ?thesis
            by (rule returnedI)
              (rule disjI2, rule disjI2, rule disjI1, rule exI [of _ e], rule conjI [OF True refl])
        next
          case False
          with run Inl have "fst (get_stats ext req s) = Inl e"
            by (simp add: except_Exception_fst)
          then show ?thesis using False by (rule raisedI)
        qed
      next
        case (Inr r)
        from try_block_Inr [OF gen Inr] obtain resp stats_text where
          r0: "r0 = Inr resp" and t: "first_text resp = Inr stats_text" and
          v': "json_loads ext stats_text = Inr (body r)" and st: "status r = 200"
          by (elim exE conjE)
        from first_text_Inr [OF t] obtain c cs p ps where
          c: "candidates resp = c # cs" and p: "parts (candidate_content c) = p # ps"
          and tp: "stats_text = part_text p"
          by (elim exE conjE)
        from gen r0 have gen':
          "generate_content ext (stats_model (globals s))
             (''Generate stats for: '' @ py_str (repr ext) v)
             (stats_generation_config (globals s)) (upstream s) = (Inr resp, u')"
          by (simp add: prompt_for_def)
        from v' tp have v'': "json_loads ext (part_text p) = Inr (body r)" by simp
        from run Inr have "fst (get_stats ext req s) = Inr r"
          by (simp add: except_Exception_fst)
        then show ?thesis
          by (rule returnedI)
            (rule disjI2, rule disjI2, rule disjI2,
              rule exI [of _ kvs], rule exI [of _ v], rule exI [of _ resp], rule exI [of _ u'],
              rule exI [of _ c], rule exI [of _ cs], rule exI [of _ p], rule exI [of _ ps],
              intro conjI, rule st, rule d, rule v, rule gen', rule c, rule p, rule v'')
      qed
    qed
  qed
qed

text \<open>
  The amended C6 at a body without \<^verbatim>\<open>query\<close>, at a body with it, and at an
  upstream call interrupted by an exception outside \<^verbatim>\<open>Exception\<close>.
\<close>

theorem returned_responses_witness:
  "get_json (post (JObject [(''q'', JString ''Fe'')])) = Inr (JObject [(''q'', JString ''Fe'')]) \<and>
   fst (get_stats script_externals (post (JObject [(''q'', JString ''Fe'')]))
          (fresh (Some ''key'') [reply_text iron_text])) =
     Inr \<lparr> body = JObject [(''error'',
             JString (''Invalid request: '' @ quoted ''query'' @ '' missing in JSON body''))],
           status = 400 \<rparr> \<and>
   fst (get_stats script_externals (post (JObject [(''query'', JString ''Fe'')]))
          (fresh (Some ''key'') [reply_text iron_text])) =
     Inr \<lparr> body = iron_record, status = 200 \<rparr> \<and>
   \<not> is_Exception (Raised False ''interrupted'') \<and>
   fst (get_stats script_externals (post (JObject [(''query'', JString ''Fe'')]))
          (fresh (Some ''key'') [Inl (Raised False ''interrupted'')])) =
     Inl (Raised False ''interrupted'')"
proof -
  let ?s = "fresh (Some ''key'') [reply_text iron_text]"
  let ?e = "Raised False ''interrupted''"
  let ?s' = "fresh (Some ''key'') [Inl ?e]"
  let ?d1 = "JObject [(''q'', JString ''Fe'')]"
  let ?d2 = "JObject [(''query'', JString ''Fe'')]"
  have g1: "get_json (post ?d1) = Inr ?d1" and g2: "get_json (post ?d2) = Inr ?d2"
    by (simp_all add: post_def)
  have o1: "\<not> truthy ?d1 \<or> (\<exists>kvs. ?d1 = JObject kvs)"
    and o2: "\<not> truthy ?d2 \<or> (\<exists>kvs. ?d2 = JObject kvs)"
    by simp_all
  have never_raises: "\<not> (\<exists>e. fst (get_stats script_externals (post d) ?s) = Inl e \<and>
      \<not> is_Exception e)" if "d = ?d1 \<or> d = ?d2" for d
    using that by (auto simp: run_defs)
  from returned_responses [OF g1 o1, of script_externals ?s, THEN conjunct1] never_raises [of ?d1]
  have "\<exists>r. fst (get_stats script_externals (post ?d1) ?s) = Inr r" by blast
  moreover
  from returned_responses [OF g2 o2, of script_externals ?s, THEN conjunct1] never_raises [of ?d2]
  have "\<exists>r. fst (get_stats script_externals (post ?d2) ?s) = Inr r" by blast
  moreover
  have k: "key_set (API_KEY (globals ?s'))"
    by (simp add: fresh_def module_init_def)
  have m: "map_of [(''query'', JString ''Fe'')] ''query'' = Some (JString ''Fe'')"
    by simp
  have gen: "generate_content script_externals (stats_model (globals ?s'))
       (''Generate stats for: '' @ py_str (repr script_externals) (JString ''Fe''))
       (stats_generation_config (globals ?s')) (upstream ?s') = (Inl ?e, [])"
    by (simp add: script_externals_def scripted_def fresh_def)
  have ne: "\<not> is_Exception ?e" by simp
  have "fst (get_stats script_externals (post ?d2) ?s') = Inl ?e"
    by (rule returned_responses [OF g2 o2, of script_externals ?s', THEN conjunct2, rule_format,
          of "[(''query'', JString ''Fe'')]" "JString ''Fe''" "Inl ?e" "[]" ?e])
      (intro conjI k refl m gen disjI1 ne)
  ultimately show ?thesis using g1 ne by (simp add: run_defs)
qed

text \<open>
  C6 as the specification states it fails on the success side: an upstream text
  \<^verbatim>\<open>[]\<close> is relayed with status 200, and a JSON array is neither the Stats Record
  nor an error object.
\<close>

theorem array_is_relayed:
  "fst (get_stats script_externals (post (JObject [(''query'', JString ''Fe'')]))
          (fresh (Some ''key'') [reply_text ''[]''])) =
     Inr \<lparr> body = JArray [], status = 200 \<rparr> \<and>
   \<not> specified_response (STATS_SCHEMA (globals (fresh (Some ''key'') [reply_text ''[]''])))
       \<lparr> body = JArray [], status = 200 \<rparr>"
  by (simp add: run_defs iron_text_def specified_response_def)

subsection \<open>Effects\<close>

text \<open>
  Claim C7. One run of the view calls \<^verbatim>\<open>generate_content\<close> at most once. When the
  credential is present and the body holds \<^verbatim>\<open>query\<close>, it calls it exactly once,
  whether the call or the parsing of its result fails or not: one prompt is added to the
  prompts sent, and the upstream service is left in the state that this one call left it
  in. Entering Awaiting-Response is calling upstream, so a run never re-enters it after
  Done or Failed.
\<close>

theorem upstream_called_at_most_once:
  "length (sent (snd (get_stats ext req s))) \<le> length (sent s) + 1 \<and>
   (key_set (API_KEY (globals s)) \<and> get_json req = Inr (JObject kvs) \<and>
    map_of kvs ''query'' = Some user_query \<longrightarrow>
      sent (snd (get_stats ext req s)) = sent s @ [prompt_for ext user_query] \<and>
      upstream (snd (get_stats ext req s)) =
        snd (generate_content ext (stats_model (globals s)) (prompt_for ext user_query)
               (stats_generation_config (globals s)) (upstream s)))"
proof -
  have "length (sent (snd (get_stats ext req s))) \<le> length (sent s) + 1"
    using get_stats_cases [of ext req s]
    by (auto simp: except_Exception_frame try_block_snd)
  then show ?thesis
    by (auto simp: get_stats_forwarded except_Exception_frame try_block_snd)
qed

text \<open>
  C7 at an upstream that fails on the first call and would answer on a second one: the
  view answers 500, one prompt was sent, and the second scripted answer is still unread.
\<close>

theorem upstream_called_at_most_once_witness:
  "key_set (API_KEY (globals
     (fresh (Some ''key'') [Inl (Raised True ''503 Service Unavailable''), reply_text iron_text]))) \<and>
   fst (get_stats script_externals (post (JObject [(''query'', JString ''Fe'')]))
     (fresh (Some ''key'') [Inl (Raised True ''503 Service Unavailable''), reply_text iron_text])) =
     Inr \<lparr> body = JObject [(''error'',
             JString ''AI stats generation failed: 503 Service Unavailable'')],
           status = 500 \<rparr> \<and>
   sent (snd (get_stats script_externals (post (JObject [(''query'', JString ''Fe'')]))
     (fresh (Some ''key'') [Inl (Raised True ''503 Service Unavailable''), reply_text iron_text]))) =
     [''Generate stats for: Fe''] \<and>
   upstream (snd (get_stats script_externals (post (JObject [(''query'', JString ''Fe'')]))
     (fresh (Some ''key'') [Inl (Raised True ''503 Service Unavailable''), reply_text iron_text]))) =
     [reply_text iron_text]"
proof -
  let ?s = "fresh (Some ''key'') [Inl (Raised True ''503 Service Unavailable''), reply_text iron_text]"
  let ?req = "post (JObject [(''query'', JString ''Fe'')])"
  have k: "key_set (API_KEY (globals ?s))"
    by (simp add: fresh_def module_init_def)
  have g: "get_json ?req = Inr (JObject [(''query'', JString ''Fe'')])"
    by (simp add: post_def)
  have m: "map_of [(''query'', JString ''Fe'')] ''query'' = Some (JString ''Fe'')"
    by simp
  from upstream_called_at_most_once [of script_externals ?req ?s
      "[(''query'', JString ''Fe'')]" "JString ''Fe''"] k g m
  have "sent (snd (get_stats script_externals ?req ?s)) =
      sent ?s @ [prompt_for script_externals (JString ''Fe'')]"
    and "upstream (snd (get_stats script_externals ?req ?s)) =
      snd (generate_content script_externals (stats_model (globals ?s))
             (prompt_for script_externals (JString ''Fe''))
             (stats_generation_config (globals ?s)) (upstream ?s))"
    by blast+
  then have "sent (snd (get_stats script_externals ?req ?s)) = [''Generate stats for: Fe'']"
    and "upstream (snd (get_stats script_externals ?req ?s)) = [reply_text iron_text]"
    by (simp_all add: fresh_def prompt_for_def script_externals_def scripted_def)
  moreover have "fst (get_stats script_externals ?req ?s) =
     Inr \<lparr> body = JObject [(''error'',
             JString ''AI stats generation failed: 503 Service Unavailable'')],
           status = 500 \<rparr>"
    by (simp add: run_defs)
  ultimately show ?thesis using k by (intro conjI)
qed

text \<open>
  Claim C8. A run of the view leaves the module's globals (\<^verbatim>\<open>API_KEY\<close>,
  \<^verbatim>\<open>STATS_PROMPT\<close>, \<^verbatim>\<open>STATS_SCHEMA\<close>, \<^verbatim>\<open>stats_model\<close>,
  \<^verbatim>\<open>stats_generation_config\<close>) as they were; and the response to a second request
  is the one it would get had the first request never run, given the state the upstream
  service is in: nothing else is carried from one request to the next.
\<close>

theorem handler_leaves_globals:
  "globals (snd (get_stats ext req s)) = globals s \<and>
   fst (get_stats ext req2 (snd (get_stats ext req1 s))) =
     fst (get_stats ext req2 (s \<lparr> upstream := upstream (snd (get_stats ext req1 s)) \<rparr>))"
proof -
  have "fst (get_stats ext req2 (snd (get_stats ext req1 s))) =
     fst (get_stats ext req2 (s \<lparr> upstream := upstream (snd (get_stats ext req1 s)) \<rparr>))"
    by (rule get_stats_fst_cong) (simp_all add: get_stats_globals)
  then show ?thesis by (simp add: get_stats_globals)
qed

text \<open>
  C8 at a successful request: the globals are still those of the freshly imported module.
\<close>

theorem handler_leaves_globals_witness:
  "globals (snd (get_stats script_externals (post (JObject [(''query'', JString ''Fe'')]))
      (fresh (Some ''key'') [reply_text iron_text]))) = module_init (Some ''key'')"
  using handler_leaves_globals [of script_externals
      "post (JObject [(''query'', JString ''Fe'')])" "fresh (Some ''key'') [reply_text iron_text]"]
  by (simp add: fresh_def)

subsection \<open>Requests outside the theorems above\<close>

text \<open>
  What the view does on the requests that the theorems above leave out. An exception of
  \<^verbatim>\<open>request.get_json()\<close> leaves the view, as do the \<^verbatim>\<open>TypeError\<close>s of
  \<^verbatim>\<open>'query' not in data\<close> on a number and of \<^verbatim>\<open>data['query']\<close> on a list
  that has the element \<^verbatim>\<open>query\<close>: these expressions stand before the \<^verbatim>\<open>try\<close>
  block. A string body without the substring \<^verbatim>\<open>query\<close> gets the 400. An upstream
  response without candidates ends in the \<^verbatim>\<open>IndexError\<close> that the \<^verbatim>\<open>except\<close>
  clause reports.
\<close>

lemma number_body_raises:
  "fst (get_stats script_externals (post (JInt 5)) (fresh (Some ''key'') [])) =
     Inl (TypeError (''argument of type '' @ quoted ''int'' @ '' is not iterable''))"
  by (simp add: run_defs)

lemma list_body_raises:
  "fst (get_stats script_externals (post (JArray [JString ''query''])) (fresh (Some ''key'') [])) =
     Inl (TypeError ''list indices must be integers or slices, not str'')"
  by (simp add: run_defs)

lemma string_body_is_400:
  "fst (get_stats script_externals (post (JString ''Fe'')) (fresh (Some ''key'') [])) =
     Inr \<lparr> body = JObject [(''error'',
             JString (''Invalid request: '' @ quoted ''query'' @ '' missing in JSON body''))],
           status = 400 \<rparr>"
  by (simp add: run_defs)

lemma no_candidates_is_500:
  "fst (get_stats script_externals (post (JObject [(''query'', JString ''Fe'')]))
          (fresh (Some ''key'') [Inr \<lparr> candidates = [] \<rparr>])) =
     Inr \<lparr> body = JObject [(''error'',
             JString ''AI stats generation failed: list index out of range'')],
           status = 500 \<rparr>"
  by (simp add: run_defs)

end
